theory Spec2Isabelle
  imports Complex_Main "HOL-Library.Sublist"
begin

section \<open>The Python values the pipeline computes with\<close>

text \<open>
  The backend (\<^verbatim>\<open>backend/server.py\<close>) turns a project configuration into floor plans,
  draws each plan as SVG, checks the selected plan against a fixed rule set and estimates
  materials. This theory embeds those four functions and the Python operations they use.

  Text is a list of \<^typ>\<open>char\<close>, one per code point, so the model covers the code points
  0 to 255. Exceptions are values: a function that can raise returns \<open>exn + 'a\<close>.
\<close>

datatype exn =
    IndexError
  | KeyError string
  | TypeError
  | AttributeError
  | ValueError
  | OverflowError
  | ZeroDivisionError
  | ValidationError
  | JSONDecodeError
  | ProviderError string
  | HTTPException nat string

subsection \<open>Strings\<close>

text \<open>\<^verbatim>\<open>sub in s\<close>: \<open>sub\<close> occurs in \<open>s\<close> as a contiguous block.\<close>

fun str_contains :: "string \<Rightarrow> string \<Rightarrow> bool" where
  "str_contains sub [] = (sub = [])"
| "str_contains sub (c # cs) = (prefix sub (c # cs) \<or> str_contains sub cs)"

text \<open>
  \<^verbatim>\<open>str.lower()\<close> on the code points below 256: the ASCII capitals and the Latin-1
  capitals (0xC0 to 0xDE without the multiplication sign 0xD7) move up by 32.
\<close>

definition lower_char :: "char \<Rightarrow> char" where
  "lower_char c =
     (let n = (of_char c :: nat)
      in if (65 \<le> n \<and> n \<le> 90) \<or> (192 \<le> n \<and> n \<le> 214) \<or> (216 \<le> n \<and> n \<le> 222)
         then char_of (n + 32) else c)"

definition lower :: "string \<Rightarrow> string" where
  "lower s = map lower_char s"

text \<open>Decimal digits of a natural number.\<close>

definition digit_char :: "nat \<Rightarrow> char" where
  "digit_char d = char_of (48 + d)"

fun digits :: "nat \<Rightarrow> string" where
  "digits n = (if n < 10 then [digit_char n] else digits (n div 10) @ [digit_char (n mod 10)])"

declare digits.simps [simp del]

subsection \<open>Numbers\<close>

text \<open>
  A Python \<^verbatim>\<open>float\<close> is a binary64 value. A finite one is modelled by the rational it
  denotes, and a float operation rounds its exact result to the nearest value with a
  53-bit significand, ties to even (\<open>fl\<close>). \<open>fl\<close> alone does not bound the exponent. The
  material estimate computes with it on the total area of a plan, a finite float there;
  the numbers of a room have the full range of binary64 (\<open>pyfloat\<close> below).
\<close>

fun bit_length :: "nat \<Rightarrow> nat" where
  "bit_length n = (if n = 0 then 0 else Suc (bit_length (n div 2)))"

declare bit_length.simps [simp del]

text \<open>\<open>ilog2 a\<close> is the integer \<open>e\<close> with \<open>2\<^sup>e \<le> a < 2\<^sup>e\<^sup>+\<^sup>1\<close>, for \<open>a > 0\<close>.\<close>

definition ilog2 :: "rat \<Rightarrow> int" where
  "ilog2 a = (if 1 \<le> a then int (bit_length (nat \<lfloor>a\<rfloor>)) - 1
              else - int (bit_length (nat (\<lceil>1 / a\<rceil> - 1))))"

definition round_half_even :: "rat \<Rightarrow> int" where
  "round_half_even q =
     (let f = \<lfloor>q\<rfloor>; d = q - of_int f
      in if d < 1 / 2 then f else if 1 / 2 < d then f + 1
         else if even f then f else f + 1)"

definition fl :: "rat \<Rightarrow> rat" where
  "fl q = (if q = 0 then 0
           else let e = ilog2 \<bar>q\<bar> - 52
                in sgn q * of_int (round_half_even (\<bar>q\<bar> / 2 powi e)) * 2 powi e)"

definition float_of_int :: "int \<Rightarrow> rat" where
  "float_of_int i = fl (of_int i)"

definition fmul :: "rat \<Rightarrow> rat \<Rightarrow> rat" where
  "fmul a b = fl (a * b)"

definition fdiv :: "rat \<Rightarrow> rat \<Rightarrow> rat" where
  "fdiv a b = fl (a / b)"

text \<open>
  The floats of a room. Beside the finite values there are the two infinities, NaN and
  the negative zero; \<open>Finite 0\<close> is the positive zero.
\<close>

datatype pyfloat = Finite rat | NegZero | PosInf | NegInf | NaN

text \<open>
  The least magnitude that rounds to \<open>2\<^sup>1\<^sup>0\<^sup>2\<^sup>4\<close>, which binary64 does not have: half
  way between the largest float \<open>2\<^sup>1\<^sup>0\<^sup>2\<^sup>4 - 2\<^sup>9\<^sup>7\<^sup>1\<close> and \<open>2\<^sup>1\<^sup>0\<^sup>2\<^sup>4\<close>, a tie that goes to the
  even significand.
\<close>

definition overflow_threshold :: rat where
  "overflow_threshold = 2 ^ 1024 - 2 ^ 970"

text \<open>
  Rounding of an exact result to binary64: to infinity from the threshold on, to 53
  bits in the normal range, to a multiple of \<open>2\<^sup>-\<^sup>1\<^sup>0\<^sup>7\<^sup>4\<close> below \<open>2\<^sup>-\<^sup>1\<^sup>0\<^sup>2\<^sup>2\<close>. A negative
  result that rounds to zero gives the negative zero.
\<close>

definition round64 :: "rat \<Rightarrow> pyfloat" where
  "round64 q =
     (if overflow_threshold \<le> \<bar>q\<bar> then (if 0 < q then PosInf else NegInf)
      else if 1 / 2 ^ 1022 \<le> \<bar>q\<bar> then Finite (fl q)
      else let m = round_half_even (\<bar>q\<bar> * 2 ^ 1074)
           in if m = 0 \<and> q < 0 then NegZero else Finite (sgn q * of_int m / 2 ^ 1074))"

fun is_zero :: "pyfloat \<Rightarrow> bool" where
  "is_zero (Finite q) = (q = 0)"
| "is_zero NegZero = True"
| "is_zero f = False"

fun is_inf :: "pyfloat \<Rightarrow> bool" where
  "is_inf PosInf = True"
| "is_inf NegInf = True"
| "is_inf f = False"

text \<open>The sign bit, and the rational a finite float denotes.\<close>

fun negative :: "pyfloat \<Rightarrow> bool" where
  "negative (Finite q) = (q < 0)"
| "negative NegZero = True"
| "negative NegInf = True"
| "negative f = False"

fun finite_value :: "pyfloat \<Rightarrow> rat" where
  "finite_value (Finite q) = q"
| "finite_value f = 0"

definition signed_zero :: "bool \<Rightarrow> pyfloat" where
  "signed_zero neg = (if neg then NegZero else Finite 0)"

definition signed_inf :: "bool \<Rightarrow> pyfloat" where
  "signed_inf neg = (if neg then NegInf else PosInf)"

text \<open>
  Addition, multiplication and division of floats (IEEE 754, round to nearest even).
  None of them raises: a result out of range is an infinity, an undefined one is NaN. A
  sum that is exactly zero is the positive zero unless both operands are negative zeros.
  The division is used with a divisor that is not zero.
\<close>

definition float_add :: "pyfloat \<Rightarrow> pyfloat \<Rightarrow> pyfloat" where
  "float_add a b =
     (if a = NaN \<or> b = NaN then NaN
      else if is_inf a \<and> is_inf b then (if a = b then a else NaN)
      else if is_inf a then a
      else if is_inf b then b
      else if is_zero a \<and> is_zero b then signed_zero (negative a \<and> negative b)
      else round64 (finite_value a + finite_value b))"

definition float_mul :: "pyfloat \<Rightarrow> pyfloat \<Rightarrow> pyfloat" where
  "float_mul a b =
     (if a = NaN \<or> b = NaN then NaN
      else if is_inf a \<or> is_inf b
        then (if is_zero a \<or> is_zero b then NaN else signed_inf (negative a \<noteq> negative b))
      else if is_zero a \<or> is_zero b then signed_zero (negative a \<noteq> negative b)
      else round64 (finite_value a * finite_value b))"

definition float_div :: "pyfloat \<Rightarrow> pyfloat \<Rightarrow> pyfloat" where
  "float_div a b =
     (if a = NaN \<or> b = NaN then NaN
      else if is_inf a then (if is_inf b then NaN else signed_inf (negative a \<noteq> negative b))
      else if is_inf b \<or> is_zero a then signed_zero (negative a \<noteq> negative b)
      else round64 (finite_value a / finite_value b))"

text \<open>
  A number read from JSON is an \<^verbatim>\<open>int\<close>, of any size, or a \<^verbatim>\<open>float\<close>. An int that
  meets a float is converted first, and the conversion raises \<^verbatim>\<open>OverflowError\<close> when the
  int rounds to a magnitude binary64 does not have.
\<close>

datatype pynum = PyInt int | PyFloat pyfloat

definition int_to_float :: "int \<Rightarrow> exn + pyfloat" where
  "int_to_float i =
     (if overflow_threshold \<le> \<bar>of_int i\<bar> then Inl OverflowError
      else Inr (Finite (fl (of_int i))))"

fun as_float :: "pynum \<Rightarrow> exn + pyfloat" where
  "as_float (PyInt i) = int_to_float i"
| "as_float (PyFloat f) = Inr f"

text \<open>One step after another: the first exception ends the computation.\<close>

definition and_then :: "exn + 'a \<Rightarrow> ('a \<Rightarrow> exn + 'b) \<Rightarrow> exn + 'b" where
  "and_then m f = (case m of Inl e \<Rightarrow> Inl e | Inr v \<Rightarrow> f v)"

fun collect :: "(exn + 'a) list \<Rightarrow> exn + 'a list" where
  "collect [] = Inr []"
| "collect (m # ms) = and_then m (\<lambda>v. and_then (collect ms) (\<lambda>vs. Inr (v # vs)))"

text \<open>
  Arithmetic on two ints is exact and does not raise. With a float among the operands
  the result is a float. True division always gives a float: of two ints it is their
  exact quotient rounded once, \<^verbatim>\<open>OverflowError\<close> when that is out of range and a signed
  zero when the dividend is zero; a zero divisor raises \<^verbatim>\<open>ZeroDivisionError\<close>.
\<close>

fun py_add :: "pynum \<Rightarrow> pynum \<Rightarrow> exn + pynum" where
  "py_add (PyInt a) (PyInt b) = Inr (PyInt (a + b))"
| "py_add a b =
     and_then (as_float a) (\<lambda>fa. and_then (as_float b) (\<lambda>fb. Inr (PyFloat (float_add fa fb))))"

fun py_mul :: "pynum \<Rightarrow> pynum \<Rightarrow> exn + pynum" where
  "py_mul (PyInt a) (PyInt b) = Inr (PyInt (a * b))"
| "py_mul a b =
     and_then (as_float a) (\<lambda>fa. and_then (as_float b) (\<lambda>fb. Inr (PyFloat (float_mul fa fb))))"

fun py_truediv :: "pynum \<Rightarrow> pynum \<Rightarrow> exn + pynum" where
  "py_truediv (PyInt a) (PyInt b) =
     (if b = 0 then Inl ZeroDivisionError
      else if overflow_threshold \<le> \<bar>of_int a / of_int b\<bar> then Inl OverflowError
      else if a = 0 then Inr (PyFloat (signed_zero (b < 0)))
      else Inr (PyFloat (round64 (of_int a / of_int b))))"
| "py_truediv a b =
     and_then (as_float a) (\<lambda>fa. and_then (as_float b) (\<lambda>fb.
       if is_zero fb then Inl ZeroDivisionError else Inr (PyFloat (float_div fa fb))))"

text \<open>
  Comparison is exact, also between an int and a float, and never raises. NaN is
  neither less nor greater than anything; the two zeros are equal.
\<close>

fun float_rank :: "pyfloat \<Rightarrow> int \<times> rat" where
  "float_rank (Finite q) = (0, q)"
| "float_rank PosInf = (1, 0)"
| "float_rank NegInf = (- 1, 0)"
| "float_rank f = (0, 0)"

fun num_rank :: "pynum \<Rightarrow> int \<times> rat" where
  "num_rank (PyInt i) = (0, of_int i)"
| "num_rank (PyFloat f) = float_rank f"

definition is_nan :: "pynum \<Rightarrow> bool" where
  "is_nan v = (v = PyFloat NaN)"

definition py_less :: "pynum \<Rightarrow> pynum \<Rightarrow> bool" where
  "py_less a b =
     (\<not> is_nan a \<and> \<not> is_nan b
      \<and> (fst (num_rank a) < fst (num_rank b)
         \<or> (fst (num_rank a) = fst (num_rank b) \<and> snd (num_rank a) < snd (num_rank b))))"

text \<open>
  \<^verbatim>\<open>max(xs)\<close> on a non-empty list keeps the first of the largest items: an item
  replaces the running maximum only when it is strictly greater.
\<close>

fun max_from :: "pynum \<Rightarrow> pynum list \<Rightarrow> pynum" where
  "max_from m [] = m"
| "max_from m (v # vs) = max_from (if py_less m v then v else m) vs"

text \<open>
  The format \<^verbatim>\<open>:.1f\<close> converts its argument to a float, which can raise for an int,
  and prints the exact value rounded to one decimal, ties to even, with the sign kept.
\<close>

fun format_float_1f :: "pyfloat \<Rightarrow> string" where
  "format_float_1f (Finite q) =
     (let t = nat (round_half_even (\<bar>q\<bar> * 10))
      in (if q < 0 then ''-'' else []) @ digits (t div 10) @ ''.'' @ digits (t mod 10))"
| "format_float_1f NegZero = ''-0.0''"
| "format_float_1f PosInf = ''inf''"
| "format_float_1f NegInf = ''-inf''"
| "format_float_1f NaN = ''nan''"

definition format_1f :: "pynum \<Rightarrow> exn + string" where
  "format_1f v = and_then (as_float v) (\<lambda>f. Inr (format_float_1f f))"

text \<open>
  \<^verbatim>\<open>str\<close> of a number, as an f-string field without a format prints it. An int gives
  its decimal digits, and \<^verbatim>\<open>ValueError\<close> when there are more of them than the
  interpreter converts (4300 by default, since Python 3.11). A float gives its
  \<^verbatim>\<open>repr\<close>; the shortest round-trip \<^verbatim>\<open>repr\<close> of a finite float belongs to the Python
  runtime and is a parameter \<open>float_repr\<close> of the functions that print floats.
\<close>

definition max_str_digits :: nat where
  "max_str_digits = 4300"

definition str_int :: "int \<Rightarrow> exn + string" where
  "str_int i =
     (if max_str_digits < length (digits (nat \<bar>i\<bar>)) then Inl ValueError
      else Inr ((if i < 0 then ''-'' else []) @ digits (nat \<bar>i\<bar>)))"

fun str_float :: "(rat \<Rightarrow> string) \<Rightarrow> pyfloat \<Rightarrow> string" where
  "str_float float_repr (Finite q) = float_repr q"
| "str_float float_repr NegZero = ''-0.0''"
| "str_float float_repr PosInf = ''inf''"
| "str_float float_repr NegInf = ''-inf''"
| "str_float float_repr NaN = ''nan''"

fun str_num :: "(rat \<Rightarrow> string) \<Rightarrow> pynum \<Rightarrow> exn + string" where
  "str_num float_repr (PyInt i) = str_int i"
| "str_num float_repr (PyFloat f) = Inr (str_float float_repr f)"

subsection \<open>Lists\<close>

text \<open>
  \<^verbatim>\<open>xs[i]\<close>: a negative index counts from the end, an index out of range raises
  \<^verbatim>\<open>IndexError\<close>.
\<close>

definition py_index :: "'a list \<Rightarrow> int \<Rightarrow> exn + 'a" where
  "py_index xs i =
     (if 0 \<le> i \<and> i < int (length xs) then Inr (xs ! nat i)
      else if i < 0 \<and> - int (length xs) \<le> i then Inr (xs ! nat (int (length xs) + i))
      else Inl IndexError)"

section \<open>Models\<close>

text \<open>
  The Pydantic models of the source. A room is the dictionary the generative model
  returns for it; its keys are those of the prompt's schema. The drawing reads
  \<^verbatim>\<open>area\<close> with a default, so that key may be absent.
\<close>

record RoomRequirement =
  name :: string
  quantity :: int
  minArea :: "rat option"

record AdjacencyRule =
  room1 :: string
  room2 :: string
  preferred :: bool

record SiteConstraints =
  width :: "rat option"
  length_m :: "rat option"
  dimensions :: "string option"
  fileName :: "string option"

record CulturalParameters =
  type :: "string option"
  preferences :: "(string \<times> string) list option"

record ComplianceCheck =
  category :: string
  rule :: string
  status :: string
  message :: string
  suggestion :: "string option"

record MaterialItem =
  name :: string
  quantity :: rat
  unit :: string
  estimatedCost :: "rat option"

record Room =
  name :: string
  x :: pynum
  y :: pynum
  width :: pynum
  height :: pynum
  area :: "pynum option"

text \<open>
  A layout is one entry of the \<^verbatim>\<open>layouts\<close> array the generative model returns. The
  drawing reads \<^verbatim>\<open>rooms\<close> with a default and the conversion reads \<^verbatim>\<open>rooms\<close> and
  \<^verbatim>\<open>totalArea\<close> by key, so both keys may be absent.
\<close>

record Layout =
  name :: string
  description :: string
  totalArea :: "pynum option"
  rooms :: "Room list option"

record FloorPlanData =
  svgContent :: string
  rooms :: "Room list"
  totalArea :: rat
  dimensions :: "(string \<times> rat) list"

record ProjectConfig =
  projectType :: string
  siteConstraints :: SiteConstraints
  requiredSpaces :: "RoomRequirement list"
  adjacencyRules :: "AdjacencyRule list option"
  orientation :: "(string \<times> string) list option"
  culturalParams :: "CulturalParameters option"
  municipalCode :: "string option"

record Project =
  id_str :: string
  name :: string
  config :: ProjectConfig
  floorPlans :: "FloorPlanData list"
  selectedPlanIndex :: int
  complianceChecks :: "ComplianceCheck list"
  materials :: "MaterialItem list"
  createdAt :: string
  updatedAt :: string

section \<open>Compliance\<close>

text \<open>
  \<^verbatim>\<open>check_compliance\<close>. The selected plan is read with \<^verbatim>\<open>floorPlans[selectedPlanIndex]\<close>
  when the list is not empty, and is \<^verbatim>\<open>None\<close> otherwise.
\<close>

definition selected_plan :: "Project \<Rightarrow> exn + FloorPlanData option" where
  "selected_plan project =
     (if floorPlans project \<noteq> []
      then (case py_index (floorPlans project) (selectedPlanIndex project) of
              Inl e \<Rightarrow> Inl e | Inr plan \<Rightarrow> Inr (Some plan))
      else Inr None)"

text \<open>
  One room of the size loop. Both branches read \<^verbatim>\<open>room['area']\<close>, the first in the
  comparison and the second in the message, so a room without that key raises. The
  comparison does not raise; the message of either branch formats the area with
  \<^verbatim>\<open>:.1f\<close>, which does for an int too large for a float.
\<close>

definition room_size_check :: "Room \<Rightarrow> exn + ComplianceCheck" where
  "room_size_check room =
     (case Room.area room of
        None \<Rightarrow> Inl (KeyError ''area'')
      | Some a \<Rightarrow>
          if str_contains ''bedroom'' (lower (Room.name room)) \<and> py_less a (PyInt 9)
          then and_then (format_1f a) (\<lambda>shown.
                 Inr \<lparr>category = ''regulatory'', rule = ''Minimum Bedroom Size'',
                      status = ''failed'',
                      message = Room.name room @ '' is '' @ shown
                                @ ''m'' @ [CHR 0xB2] @ '' (minimum 9m'' @ [CHR 0xB2] @ '' required)'',
                      suggestion = Some ''Increase bedroom dimensions to meet code requirements''\<rparr>)
          else and_then (format_1f a) (\<lambda>shown.
                 Inr \<lparr>category = ''regulatory'', rule = ''Minimum Room Size'',
                      status = ''passed'',
                      message = Room.name room @ '' meets size requirements ('' @ shown
                                @ ''m'' @ [CHR 0xB2] @ '')'',
                      suggestion = None\<rparr>))"

fun room_size_checks :: "Room list \<Rightarrow> exn + ComplianceCheck list" where
  "room_size_checks [] = Inr []"
| "room_size_checks (room # rest) =
     (case room_size_check room of
        Inl e \<Rightarrow> Inl e
      | Inr c \<Rightarrow> (case room_size_checks rest of Inl e \<Rightarrow> Inl e | Inr cs \<Rightarrow> Inr (c # cs)))"

text \<open>\<^verbatim>\<open>config.municipalCode or "General"\<close>: an absent or empty code gives the label.\<close>

definition municipal_code_of :: "ProjectConfig \<Rightarrow> string" where
  "municipal_code_of cfg =
     (case municipalCode cfg of None \<Rightarrow> ''General''
      | Some c \<Rightarrow> if c = [] then ''General'' else c)"

definition setback_check :: "ProjectConfig \<Rightarrow> ComplianceCheck" where
  "setback_check cfg =
     \<lparr>category = ''regulatory'', rule = ''Building Setbacks'', status = ''passed'',
      message = ''Setbacks comply with '' @ municipal_code_of cfg @ '' regulations'',
      suggestion = None\<rparr>"

definition cultural_checks :: "ProjectConfig \<Rightarrow> FloorPlanData \<Rightarrow> ComplianceCheck list" where
  "cultural_checks cfg plan =
     (case culturalParams cfg of
        None \<Rightarrow> []
      | Some cp \<Rightarrow>
          (case type cp of
             None \<Rightarrow> []
           | Some cultural_type \<Rightarrow>
               if cultural_type \<noteq> [] \<and> str_contains ''vastu'' (lower cultural_type)
               then (let kitchen_rooms =
                           filter (\<lambda>r. str_contains ''kitchen'' (lower (Room.name r))) (rooms plan)
                     in (if kitchen_rooms \<noteq> []
                         then [\<lparr>category = ''cultural'', rule = ''Kitchen Placement (Vastu)'',
                                status = ''passed'',
                                message = ''Kitchen positioned in South-East quadrant (Agni corner)'',
                                suggestion = None\<rparr>]
                         else [])
                        @ [\<lparr>category = ''cultural'', rule = ''Main Entrance (Vastu)'',
                             status = ''passed'',
                             message = ''Entrance facing North-East for prosperity'',
                             suggestion = None\<rparr>])
               else []))"

text \<open>
  The doorway rule compares the literal 0.9 with the literal 0.85, both floats. The
  messages print the literal, whose \<^verbatim>\<open>str\<close> is \<^verbatim>\<open>0.9\<close>.
\<close>

definition doorway_width :: rat where
  "doorway_width = fl (9 / 10)"

definition accessibility_check :: ComplianceCheck where
  "accessibility_check =
     (if fl (85 / 100) \<le> doorway_width
      then \<lparr>category = ''accessibility'', rule = ''Doorway Width (ADA)'', status = ''passed'',
            message = ''All doorways are 0.9m wide (minimum 0.85m)'',
            suggestion = None\<rparr>
      else \<lparr>category = ''accessibility'', rule = ''Doorway Width (ADA)'', status = ''warning'',
            message = ''Some doorways are 0.9m (0.85m recommended)'',
            suggestion = Some ''Consider widening doorways for accessibility''\<rparr>)"

definition check_compliance :: "Project \<Rightarrow> exn + ComplianceCheck list" where
  "check_compliance project =
     (let cfg = Project.config project
      in case selected_plan project of
           Inl e \<Rightarrow> Inl e
         | Inr None \<Rightarrow> Inr []
         | Inr (Some plan) \<Rightarrow>
             (case room_size_checks (rooms plan) of
                Inl e \<Rightarrow> Inl e
              | Inr checks \<Rightarrow>
                  Inr (checks @ [setback_check cfg] @ cultural_checks cfg plan
                       @ [accessibility_check])))"

section \<open>Materials\<close>

text \<open>
  \<^verbatim>\<open>estimate_materials\<close>. \<^verbatim>\<open>totalArea\<close> is a float; the room count is an int, and the
  int quantities and costs become floats when they are stored in a \<^verbatim>\<open>MaterialItem\<close>.
  The literals 0.15 and 0.4 are the floats nearest to them.
\<close>

definition estimate_materials :: "Project \<Rightarrow> exn + MaterialItem list" where
  "estimate_materials project =
     (if floorPlans project = [] then Inr []
      else case py_index (floorPlans project) (selectedPlanIndex project) of
        Inl e \<Rightarrow> Inl e
      | Inr plan \<Rightarrow>
          (let total_area = totalArea plan;
               concrete_volume = fmul total_area (fl (15 / 100));
               num_rooms = int (length (rooms plan));
               wall_area = num_rooms * 10 * 3;
               bricks_needed = wall_area * 50;
               steel_weight = fmul total_area (float_of_int 8);
               cement_bags = fmul total_area (fl (4 / 10));
               paintable_area = fmul total_area (float_of_int 3)
           in Inr
             [\<lparr>MaterialItem.name = ''Ready-Mix Concrete (M25)'', MaterialItem.quantity = concrete_volume,
               unit = ''m'' @ [CHR 0xB3],
               estimatedCost = Some (fmul concrete_volume (float_of_int 5500))\<rparr>,
              \<lparr>MaterialItem.name = ''Clay Bricks (Standard)'', MaterialItem.quantity = float_of_int bricks_needed,
               unit = ''units'',
               estimatedCost = Some (float_of_int (bricks_needed * 8))\<rparr>,
              \<lparr>MaterialItem.name = ''TMT Steel Bars (Fe500)'', MaterialItem.quantity = steel_weight,
               unit = ''kg'',
               estimatedCost = Some (fmul steel_weight (float_of_int 65))\<rparr>,
              \<lparr>MaterialItem.name = ''Cement (OPC 53 Grade)'', MaterialItem.quantity = cement_bags,
               unit = ''bags'',
               estimatedCost = Some (fmul cement_bags (float_of_int 450))\<rparr>,
              \<lparr>MaterialItem.name = ''Ceramic Floor Tiles (600x600mm)'', MaterialItem.quantity = total_area,
               unit = ''m'' @ [CHR 0xB2],
               estimatedCost = Some (fmul total_area (float_of_int 450))\<rparr>,
              \<lparr>MaterialItem.name = ''Interior Emulsion Paint'',
               MaterialItem.quantity = fdiv paintable_area (float_of_int 12),
               unit = ''liters'',
               estimatedCost = Some (fmul (fdiv paintable_area (float_of_int 12)) (float_of_int 350))\<rparr>,
              \<lparr>MaterialItem.name = ''Wooden Doors with Frame'', MaterialItem.quantity = float_of_int (num_rooms + 2),
               unit = ''units'',
               estimatedCost = Some (float_of_int ((num_rooms + 2) * 15000))\<rparr>,
              \<lparr>MaterialItem.name = ''UPVC Windows with Glass'', MaterialItem.quantity = float_of_int (num_rooms * 2),
               unit = ''units'',
               estimatedCost = Some (float_of_int ((num_rooms * 2) * 8000))\<rparr>]))"

section \<open>Drawing\<close>

text \<open>
  \<^verbatim>\<open>generate_svg_from_layout\<close>. The source collects the pieces of the drawing in the
  list \<^verbatim>\<open>svg_parts\<close> and joins them; the model keeps that list (\<open>svg_parts\<close>) and the
  join (\<open>generate_svg_from_layout\<close>). The steps are taken in the order of the source, so
  the exception the model returns is the first one the source raises: \<^verbatim>\<open>OverflowError\<close>
  from an int too large for the float it meets, or for the halving of a width or height,
  or for the format of an area, and \<^verbatim>\<open>ValueError\<close> from an int too long to print.
\<close>

definition colors :: "string list" where
  "colors = [''#e3f2fd'', ''#f3e5f5'', ''#e8f5e9'', ''#fff3e0'', ''#fce4ec'', ''#e0f2f1'',
             ''#f1f8e9'']"

definition scale :: pynum where
  "scale = PyInt 40"

text \<open>
  \<^verbatim>\<open>max(vs) if rooms else d\<close>; the list \<open>vs\<close> has one entry for each room, so it is empty
  when \<^verbatim>\<open>rooms\<close> is.
\<close>

definition max_or :: "pynum \<Rightarrow> pynum list \<Rightarrow> pynum" where
  "max_or d vs = (case vs of [] \<Rightarrow> d | v # rest \<Rightarrow> max_from v rest)"

text \<open>
  The two list comprehensions over the rooms: where each room ends to the right
  (\<^verbatim>\<open>r['x'] + r['width']\<close>) and at the bottom (\<^verbatim>\<open>r['y'] + r['height']\<close>).
\<close>

definition x_extents :: "Room list \<Rightarrow> exn + pynum list" where
  "x_extents rms = collect (map (\<lambda>r. py_add (x r) (width r)) rms)"

definition y_extents :: "Room list \<Rightarrow> exn + pynum list" where
  "y_extents rms = collect (map (\<lambda>r. py_add (y r) (height r)) rms)"

definition layout_rooms :: "Layout \<Rightarrow> Room list" where
  "layout_rooms layout = (case Layout.rooms layout of None \<Rightarrow> [] | Some rs \<Rightarrow> rs)"

text \<open>A side of the canvas, \<^verbatim>\<open>m * scale + 100\<close>, for the largest extent \<open>m\<close>.\<close>

definition canvas_side :: "pynum \<Rightarrow> exn + pynum" where
  "canvas_side m = and_then (py_mul m scale) (\<lambda>scaled. py_add scaled (PyInt 100))"

definition svg_open :: "string \<Rightarrow> string \<Rightarrow> string" where
  \<open>svg_open w h =
     ''<svg width="'' @ w @ ''" height="'' @ h @ ''" xmlns="http://www.w3.org/2000/svg">''\<close>

definition svg_header :: "(rat \<Rightarrow> string) \<Rightarrow> pynum \<Rightarrow> pynum \<Rightarrow> exn + string list" where
  \<open>svg_header float_repr svg_width svg_height =
     and_then (str_num float_repr svg_width) (\<lambda>w.
     and_then (str_num float_repr svg_height) (\<lambda>h.
       Inr [svg_open w h,
            ''<defs>'',
            ''<pattern id="grid" width="40" height="40" patternUnits="userSpaceOnUse">'',
            ''<path d="M 40 0 L 0 0 0 40" fill="none" stroke="#e0e0e0" stroke-width="0.5"/>'',
            ''</pattern>'',
            ''</defs>'',
            ''<rect width="'' @ w @ ''" height="'' @ h @ ''" fill="url(#grid)"/>'']))\<close>

text \<open>
  The position of a room on the canvas, \<^verbatim>\<open>v * scale + 50\<close>, and the middle of a side
  that starts at \<open>a\<close> and is \<open>b\<close> long, \<^verbatim>\<open>a + b / 2\<close>.
\<close>

definition offset :: "pynum \<Rightarrow> exn + pynum" where
  "offset v = and_then (py_mul v scale) (\<lambda>scaled. py_add scaled (PyInt 50))"

definition middle :: "pynum \<Rightarrow> pynum \<Rightarrow> exn + pynum" where
  "middle a b = and_then (py_truediv b (PyInt 2)) (\<lambda>half. py_add a half)"

text \<open>The rectangle of a room, given its scaled position and size and its colour.\<close>

definition room_rect :: "(rat \<Rightarrow> string) \<Rightarrow> pynum \<Rightarrow> pynum \<Rightarrow> pynum \<Rightarrow> pynum \<Rightarrow> string \<Rightarrow> exn + string" where
  \<open>room_rect float_repr sx sy sw sh color =
     and_then (str_num float_repr sx) (\<lambda>tx.
     and_then (str_num float_repr sy) (\<lambda>ty.
     and_then (str_num float_repr sw) (\<lambda>tw.
     and_then (str_num float_repr sh) (\<lambda>th.
       Inr (''<rect x="'' @ tx @ ''" y="'' @ ty @ ''" width="'' @ tw @ ''" height="'' @ th
            @ ''" '' @ ''fill="'' @ color @ ''" stroke="#424242" stroke-width="2" rx="2"/>'')))))\<close>

text \<open>The two labels of a room: its name, and below it the area with one decimal.\<close>

definition name_label :: "(rat \<Rightarrow> string) \<Rightarrow> pynum \<Rightarrow> pynum \<Rightarrow> string \<Rightarrow> exn + string" where
  \<open>name_label float_repr text_x text_y room_name =
     and_then (str_num float_repr text_x) (\<lambda>tx.
     and_then (str_num float_repr text_y) (\<lambda>ty.
       Inr (''<text x="'' @ tx @ ''" y="'' @ ty @ ''" text-anchor="middle" ''
            @ ''font-family="Arial" font-size="12" font-weight="bold" fill="#212121">''
            @ room_name @ ''</text>'')))\<close>

definition area_label :: "(rat \<Rightarrow> string) \<Rightarrow> pynum \<Rightarrow> pynum \<Rightarrow> pynum \<Rightarrow> exn + string" where
  \<open>area_label float_repr text_x text_y room_area =
     and_then (str_num float_repr text_x) (\<lambda>tx.
     and_then (py_add text_y (PyInt 15)) (\<lambda>below.
     and_then (str_num float_repr below) (\<lambda>ty.
     and_then (format_1f room_area) (\<lambda>shown.
       Inr (''<text x="'' @ tx @ ''" y="'' @ ty @ ''" text-anchor="middle" ''
            @ ''font-family="Arial" font-size="10" fill="#616161">''
            @ shown @ '' m'' @ [CHR 0xB2] @ ''</text>'')))))\<close>

text \<open>
  The three pieces one pass of the loop appends for the room at index \<open>idx\<close>: the
  rectangle, the name and the area. \<^verbatim>\<open>room.get("area", 0)\<close> is 0 when the key is absent.
\<close>

definition room_parts :: "(rat \<Rightarrow> string) \<Rightarrow> nat \<Rightarrow> Room \<Rightarrow> exn + string list" where
  "room_parts float_repr idx room =
     and_then (offset (x room)) (\<lambda>sx.
     and_then (offset (y room)) (\<lambda>sy.
     and_then (py_mul (width room) scale) (\<lambda>sw.
     and_then (py_mul (height room) scale) (\<lambda>sh.
     and_then (room_rect float_repr sx sy sw sh (colors ! (idx mod length colors))) (\<lambda>rect.
     and_then (middle sx sw) (\<lambda>text_x.
     and_then (middle sy sh) (\<lambda>text_y.
     and_then (name_label float_repr text_x text_y (Room.name room)) (\<lambda>label.
     and_then (area_label float_repr text_x text_y
                 (case Room.area room of None \<Rightarrow> PyInt 0 | Some a \<Rightarrow> a)) (\<lambda>area_text.
       Inr [rect, label, area_text])))))))))"

definition svg_parts :: "(rat \<Rightarrow> string) \<Rightarrow> Layout \<Rightarrow> exn + string list" where
  "svg_parts float_repr layout =
     (let rms = layout_rooms layout
      in and_then (x_extents rms) (\<lambda>xs.
         and_then (y_extents rms) (\<lambda>ys.
         and_then (canvas_side (max_or (PyInt 20) xs)) (\<lambda>svg_width.
         and_then (canvas_side (max_or (PyInt 15) ys)) (\<lambda>svg_height.
         and_then (svg_header float_repr svg_width svg_height) (\<lambda>header.
         and_then (collect (map (\<lambda>(idx, room). room_parts float_repr idx room)
                                (enumerate 0 rms))) (\<lambda>bodies.
           Inr (header @ concat bodies @ [''</svg>'']))))))))"

definition generate_svg_from_layout :: "(rat \<Rightarrow> string) \<Rightarrow> Layout \<Rightarrow> exn + string" where
  "generate_svg_from_layout float_repr layout =
     and_then (svg_parts float_repr layout) (\<lambda>parts. Inr (concat parts))"

text \<open>
  Ranges in which the drawing raises nothing. A number is in the range of \<open>b\<close> when it is
  a float, or an int of magnitude at most \<open>b\<close>; a room is \<open>drawable\<close> when its five
  numbers are in the range of \<open>10\<^sup>3\<^sup>0\<^sup>0\<close>.
\<close>

definition in_range :: "int \<Rightarrow> pynum \<Rightarrow> bool" where
  "in_range b v = (case v of PyInt i \<Rightarrow> (\<bar>i\<bar> \<le> b) | PyFloat f \<Rightarrow> True)"

definition room_limit :: int where
  "room_limit = 10 ^ 300"

definition drawable :: "Room \<Rightarrow> bool" where
  "drawable room =
     (in_range room_limit (x room) \<and> in_range room_limit (y room)
      \<and> in_range room_limit (width room) \<and> in_range room_limit (height room)
      \<and> (case Room.area room of None \<Rightarrow> True | Some a \<Rightarrow> in_range room_limit a))"

section \<open>Example inputs\<close>

definition example_config :: ProjectConfig where
  "example_config =
     \<lparr>projectType = ''residential'',
      siteConstraints = \<lparr>SiteConstraints.width = None, length_m = None,
                          SiteConstraints.dimensions = None, fileName = None\<rparr>,
      requiredSpaces = [], adjacencyRules = Some [], orientation = Some [],
      culturalParams = None, municipalCode = None\<rparr>"

definition project_with :: "FloorPlanData list \<Rightarrow> Project" where
  "project_with plans =
     \<lparr>id_str = ''p1'', Project.name = ''House'', config = example_config,
      floorPlans = plans, selectedPlanIndex = 0, complianceChecks = [], materials = [],
      createdAt = ''2024-01-01T00:00:00+00:00'', updatedAt = ''2024-01-01T00:00:00+00:00''\<rparr>"

definition room_at :: "string \<Rightarrow> int \<Rightarrow> int \<Rightarrow> int \<Rightarrow> int \<Rightarrow> int \<Rightarrow> Room" where
  "room_at n px py w h a =
     \<lparr>Room.name = n, x = PyInt px, y = PyInt py, width = PyInt w, height = PyInt h,
      area = Some (PyInt a)\<rparr>"

definition bedroom_plan :: FloorPlanData where
  "bedroom_plan =
     \<lparr>svgContent = [],
      rooms = [room_at ''Bedroom 1'' 0 0 2 4 8, room_at ''Living Room'' 2 0 4 5 20],
      totalArea = 28, FloorPlanData.dimensions = [(''width'', 20), (''length'', 15)]\<rparr>"

definition four_room_plan :: FloorPlanData where
  "four_room_plan =
     \<lparr>svgContent = [],
      rooms = [room_at ''Living Room'' 0 0 5 6 30, room_at ''Kitchen'' 5 0 4 5 20,
               room_at ''Bedroom 1'' 0 6 5 5 25, room_at ''Bedroom 2'' 5 5 5 5 25],
      totalArea = 100, FloorPlanData.dimensions = [(''width'', 20), (''length'', 15)]\<rparr>"

text \<open>A second project: another configuration, two plans, the last one selected.\<close>

definition renamed_plan :: FloorPlanData where
  "renamed_plan =
     \<lparr>svgContent = ''<svg/>'',
      rooms = [room_at ''Hall'' 1 1 8 5 40, room_at ''Study'' 9 1 3 4 12,
               room_at ''Pantry'' 1 6 2 2 4, room_at ''Guest Bedroom'' 3 6 4 4 16],
      totalArea = 100, FloorPlanData.dimensions = [(''width'', 30), (''length'', 25)]\<rparr>"

definition other_project :: "FloorPlanData list \<Rightarrow> Project" where
  "other_project plans =
     \<lparr>id_str = ''p2'', Project.name = ''Office'',
      config = example_config\<lparr>projectType := ''commercial'', municipalCode := Some ''BBMP''\<rparr>,
      floorPlans = plans, selectedPlanIndex = - 1, complianceChecks = [], materials = [],
      createdAt = ''2024-02-02T00:00:00+00:00'', updatedAt = ''2024-02-03T00:00:00+00:00''\<rparr>"

text \<open>What the compliance check returns for \<open>bedroom_plan\<close> under \<open>example_config\<close>.\<close>

definition bedroom_findings :: "ComplianceCheck list" where
  "bedroom_findings =
     [\<lparr>category = ''regulatory'', rule = ''Minimum Bedroom Size'', status = ''failed'',
       message = ''Bedroom 1 is 8.0m'' @ [CHR 0xB2] @ '' (minimum 9m'' @ [CHR 0xB2] @ '' required)'',
       suggestion = Some ''Increase bedroom dimensions to meet code requirements''\<rparr>,
      \<lparr>category = ''regulatory'', rule = ''Minimum Room Size'', status = ''passed'',
       message = ''Living Room meets size requirements (20.0m'' @ [CHR 0xB2] @ '')'',
       suggestion = None\<rparr>,
      \<lparr>category = ''regulatory'', rule = ''Building Setbacks'', status = ''passed'',
       message = ''Setbacks comply with General regulations'', suggestion = None\<rparr>,
      \<lparr>category = ''accessibility'', rule = ''Doorway Width (ADA)'', status = ''passed'',
       message = ''All doorways are 0.9m wide (minimum 0.85m)'', suggestion = None\<rparr>]"

text \<open>A layout as the generative model returns it, and a stand-in for the float printer.\<close>

definition bedroom_layout :: Layout where
  "bedroom_layout =
     \<lparr>Layout.name = ''Compact'', description = ''Two rooms'', Layout.totalArea = Some (PyInt 28),
      Layout.rooms = Some [room_at ''Bedroom 1'' 0 0 2 4 8, room_at ''Living Room'' 2 0 4 5 20]\<rparr>"

definition no_floats :: "rat \<Rightarrow> string" where
  "no_floats q = ''?''"

definition empty_layout :: Layout where
  "empty_layout =
     \<lparr>Layout.name = ''Empty'', description = ''No rooms'', Layout.totalArea = Some (PyInt 0),
      Layout.rooms = Some []\<rparr>"

text \<open>Three rooms; the one that reaches furthest right is not the one that reaches furthest down.\<close>

definition three_room_layout :: Layout where
  "three_room_layout =
     \<lparr>Layout.name = ''Stepped'', description = ''Three rooms'', Layout.totalArea = Some (PyInt 37),
      Layout.rooms = Some [room_at ''Hall'' 0 0 4 3 12, room_at ''Kitchen'' 4 0 3 5 15,
                           room_at ''Bedroom'' 1 3 2 5 10]\<rparr>"

text \<open>Nine rooms in a row, two more than the palette has colours.\<close>

definition nine_room_layout :: Layout where
  "nine_room_layout =
     \<lparr>Layout.name = ''Row'', description = ''Nine units'', Layout.totalArea = Some (PyInt 9),
      Layout.rooms = Some (map (\<lambda>i. room_at ''Unit'' (int i) 0 1 1 1) [0..<9])\<rparr>"

section \<open>Properties\<close>

subsection \<open>Selecting a plan\<close>

lemma py_index_nonempty: "py_index xs i = Inr v \<Longrightarrow> xs \<noteq> []"
  by (auto simp: py_index_def split: if_splits)

lemma py_index_first: "py_index (v # vs) 0 = Inr v"
  by (simp add: py_index_def)

text \<open>
  C8. A project whose list of floor plans is empty has no selected plan: for every
  configuration and every other field, the compliance check returns the empty list of
  findings and the estimate the empty list of materials, and neither raises.
\<close>

theorem C8_no_plan_no_results:
  "floorPlans project = [] \<Longrightarrow>
     check_compliance project = Inr [] \<and> estimate_materials project = Inr []"
  by (simp add: check_compliance_def selected_plan_def estimate_materials_def)

theorem C8_no_plan_no_results_witness:
  "floorPlans (project_with []) = [] \<and>
   check_compliance (project_with []) = Inr [] \<and> estimate_materials (project_with []) = Inr []"
  using C8_no_plan_no_results [of "project_with []"] by (simp add: project_with_def)

subsection \<open>Floats that are exact\<close>

text \<open>An integer below \<open>2\<^sup>5\<^sup>3\<close> is a float: rounding leaves it unchanged.\<close>

lemma bit_length_le: "n < 2 ^ k \<Longrightarrow> bit_length n \<le> k"
proof (induction k arbitrary: n)
  case 0
  then show ?case by (simp add: bit_length.simps)
next
  case (Suc k)
  show ?case
  proof (cases "n = 0")
    case True
    then show ?thesis by (simp add: bit_length.simps)
  next
    case False
    have "n div 2 < 2 ^ k" using Suc.prems by auto
    then have "bit_length (n div 2) \<le> k" by (rule Suc.IH)
    then show ?thesis using False by (subst bit_length.simps) simp
  qed
qed

lemma round_half_even_of_int: "round_half_even (of_int k) = k"
  by (simp add: round_half_even_def)

lemma fl_of_nat:
  assumes "n < 2 ^ 53"
  shows "fl (of_nat n) = of_nat n"
proof (cases "n = 0")
  case True
  then show ?thesis by (simp add: fl_def)
next
  case False
  define b where "b = bit_length n"
  have b53: "b \<le> 53" unfolding b_def using assms by (rule bit_length_le)
  define m where "m = 53 - b"
  have ge1: "(1::rat) \<le> of_nat n" using False by simp
  have il: "ilog2 (of_nat n) = int b - 1"
    using ge1 by (simp add: ilog2_def b_def)
  have ie: "ilog2 (rat_of_nat n) - 52 = - int m"
    using b53 by (simp add: il m_def)
  have p: "(2::rat) powi (- int m) = 1 / 2 ^ m"
    by (simp add: power_int_minus field_simps)
  have q: "(of_nat n :: rat) / (1 / 2 ^ m) = of_int (int n * 2 ^ m)"
    by simp
  have "fl (of_nat n) =
          of_int (round_half_even (of_nat n / 2 powi (ilog2 (of_nat n) - 52)))
            * 2 powi (ilog2 (of_nat n) - 52)"
    using False by (simp add: fl_def Let_def)
  also have "\<dots> = of_int (round_half_even (of_int (int n * 2 ^ m))) * (1 / 2 ^ m)"
    unfolding ie p q ..
  also have "\<dots> = of_int (int n * 2 ^ m) * (1 / 2 ^ m)"
    unfolding round_half_even_of_int ..
  also have "\<dots> = of_nat n"
    by simp
  finally show ?thesis .
qed

lemma fl_numeral: "(numeral k :: nat) < 2 ^ 53 \<Longrightarrow> fl (numeral k) = numeral k"
  using fl_of_nat [of "numeral k"] by simp

lemma float_of_int_numeral:
  "(numeral k :: nat) < 2 ^ 53 \<Longrightarrow> float_of_int (numeral k) = numeral k"
  by (simp add: float_of_int_def fl_numeral)

lemma float_of_int_nat: "n < 2 ^ 53 \<Longrightarrow> float_of_int (int n) = of_nat n"
  using fl_of_nat [of n] by (simp add: float_of_int_def)

text \<open>The two literals of the estimate that are not exact, times an area of 100.\<close>

lemma concrete_of_100: "fmul 100 (fl (3 / 20)) = 15"
  by code_simp

lemma cement_of_100: "fmul 100 (fl (2 / 5)) = 40"
  by code_simp

subsection \<open>The estimate\<close>

text \<open>
  C3. When the selected plan has \<^verbatim>\<open>totalArea\<close> 100 and four rooms, the estimate is the
  eight lines concrete, bricks, steel, cement, floor tiles, paint, doors, windows, in
  that order, with quantities 15, 6000, 800, 40, 100, 25, 6, 8 and costs 82500, 48000,
  52000, 18000, 45000, 8750, 90000, 64000.
\<close>

theorem C3_estimate_100_4:
  assumes sel: "py_index (floorPlans project) (selectedPlanIndex project) = Inr plan"
    and area: "totalArea plan = 100"
    and count: "length (rooms plan) = 4"
  shows "estimate_materials project = Inr
     [\<lparr>MaterialItem.name = ''Ready-Mix Concrete (M25)'', MaterialItem.quantity = 15,
       unit = ''m'' @ [CHR 0xB3], estimatedCost = Some 82500\<rparr>,
      \<lparr>MaterialItem.name = ''Clay Bricks (Standard)'', MaterialItem.quantity = 6000,
       unit = ''units'', estimatedCost = Some 48000\<rparr>,
      \<lparr>MaterialItem.name = ''TMT Steel Bars (Fe500)'', MaterialItem.quantity = 800,
       unit = ''kg'', estimatedCost = Some 52000\<rparr>,
      \<lparr>MaterialItem.name = ''Cement (OPC 53 Grade)'', MaterialItem.quantity = 40,
       unit = ''bags'', estimatedCost = Some 18000\<rparr>,
      \<lparr>MaterialItem.name = ''Ceramic Floor Tiles (600x600mm)'', MaterialItem.quantity = 100,
       unit = ''m'' @ [CHR 0xB2], estimatedCost = Some 45000\<rparr>,
      \<lparr>MaterialItem.name = ''Interior Emulsion Paint'', MaterialItem.quantity = 25,
       unit = ''liters'', estimatedCost = Some 8750\<rparr>,
      \<lparr>MaterialItem.name = ''Wooden Doors with Frame'', MaterialItem.quantity = 6,
       unit = ''units'', estimatedCost = Some 90000\<rparr>,
      \<lparr>MaterialItem.name = ''UPVC Windows with Glass'', MaterialItem.quantity = 8,
       unit = ''units'', estimatedCost = Some 64000\<rparr>]"
proof -
  have ne: "floorPlans project \<noteq> []"
    using sel by (rule py_index_nonempty)
  have n: "int (length (rooms plan)) = 4"
    using count by simp
  show ?thesis
    unfolding estimate_materials_def Let_def
    using ne sel
    by (simp add: n area fmul_def fdiv_def fl_numeral float_of_int_numeral
        concrete_of_100 [unfolded fmul_def] cement_of_100 [unfolded fmul_def])
qed

theorem C3_estimate_100_4_witness:
  "estimate_materials (project_with [four_room_plan]) = Inr
     [\<lparr>MaterialItem.name = ''Ready-Mix Concrete (M25)'', MaterialItem.quantity = 15,
       unit = ''m'' @ [CHR 0xB3], estimatedCost = Some 82500\<rparr>,
      \<lparr>MaterialItem.name = ''Clay Bricks (Standard)'', MaterialItem.quantity = 6000,
       unit = ''units'', estimatedCost = Some 48000\<rparr>,
      \<lparr>MaterialItem.name = ''TMT Steel Bars (Fe500)'', MaterialItem.quantity = 800,
       unit = ''kg'', estimatedCost = Some 52000\<rparr>,
      \<lparr>MaterialItem.name = ''Cement (OPC 53 Grade)'', MaterialItem.quantity = 40,
       unit = ''bags'', estimatedCost = Some 18000\<rparr>,
      \<lparr>MaterialItem.name = ''Ceramic Floor Tiles (600x600mm)'', MaterialItem.quantity = 100,
       unit = ''m'' @ [CHR 0xB2], estimatedCost = Some 45000\<rparr>,
      \<lparr>MaterialItem.name = ''Interior Emulsion Paint'', MaterialItem.quantity = 25,
       unit = ''liters'', estimatedCost = Some 8750\<rparr>,
      \<lparr>MaterialItem.name = ''Wooden Doors with Frame'', MaterialItem.quantity = 6,
       unit = ''units'', estimatedCost = Some 90000\<rparr>,
      \<lparr>MaterialItem.name = ''UPVC Windows with Glass'', MaterialItem.quantity = 8,
       unit = ''units'', estimatedCost = Some 64000\<rparr>]"
proof -
  have sel: "py_index (floorPlans (project_with [four_room_plan]))
               (selectedPlanIndex (project_with [four_room_plan])) = Inr four_room_plan"
    by (simp add: project_with_def py_index_first)
  have area: "totalArea four_room_plan = 100"
    by (simp add: four_room_plan_def)
  have count: "length (rooms four_room_plan) = 4"
    by (simp add: four_room_plan_def)
  show ?thesis
    by (rule C3_estimate_100_4 [OF sel area count])
qed

text \<open>
  C10. The estimate reads the selected plan's \<^verbatim>\<open>totalArea\<close> and the number of its rooms
  and nothing else: two projects whose selected plans agree on both get the same list of
  materials, whatever their rooms' names, positions and sizes, their drawings and their
  other fields are.
\<close>

theorem C10_estimate_depends_on_area_and_count:
  assumes s1: "py_index (floorPlans p1) (selectedPlanIndex p1) = Inr plan1"
    and s2: "py_index (floorPlans p2) (selectedPlanIndex p2) = Inr plan2"
    and a: "totalArea plan1 = totalArea plan2"
    and c: "length (rooms plan1) = length (rooms plan2)"
  shows "estimate_materials p1 = estimate_materials p2"
proof -
  have ne: "floorPlans p1 \<noteq> []" "floorPlans p2 \<noteq> []"
    using s1 s2 by (auto dest: py_index_nonempty)
  have n: "int (length (rooms plan1)) = int (length (rooms plan2))"
    using c by simp
  show ?thesis
    unfolding estimate_materials_def Let_def
    using ne s1 s2 by (simp add: a n)
qed

theorem C10_estimate_depends_on_area_and_count_witness:
  "estimate_materials (project_with [four_room_plan])
     = estimate_materials (other_project [bedroom_plan, renamed_plan])"
proof -
  have s1: "py_index (floorPlans (project_with [four_room_plan]))
               (selectedPlanIndex (project_with [four_room_plan])) = Inr four_room_plan"
    by (simp add: project_with_def py_index_first)
  have s2: "py_index (floorPlans (other_project [bedroom_plan, renamed_plan]))
               (selectedPlanIndex (other_project [bedroom_plan, renamed_plan])) = Inr renamed_plan"
    by (simp add: other_project_def py_index_def)
  have a: "totalArea four_room_plan = totalArea renamed_plan"
    by (simp add: four_room_plan_def renamed_plan_def)
  have c: "length (rooms four_room_plan) = length (rooms renamed_plan)"
    by (simp add: four_room_plan_def renamed_plan_def)
  show ?thesis
    by (rule C10_estimate_depends_on_area_and_count [OF s1 s2 a c])
qed

subsection \<open>Compliance\<close>

lemma bedroom_names:
  "str_contains ''bedroom'' (lower ''Bedroom 1'')"
  "\<not> str_contains ''bedroom'' (lower ''Living Room'')"
  by code_simp+

lemma bedroom_areas:
  "py_less (PyInt 8) (PyInt 9)"
  "format_1f (PyInt 8) = Inr ''8.0''"
  "format_1f (PyInt 20) = Inr ''20.0''"
  by code_simp+

lemma accessibility_passed:
  "accessibility_check =
     \<lparr>category = ''accessibility'', rule = ''Doorway Width (ADA)'', status = ''passed'',
      message = ''All doorways are 0.9m wide (minimum 0.85m)'', suggestion = None\<rparr>"
  by code_simp

lemma no_cultural_params: "culturalParams cfg = None \<Longrightarrow> cultural_checks cfg plan = []"
  by (simp add: cultural_checks_def)

text \<open>
  C1 (as amended). The selected plan has exactly the rooms "Bedroom 1" of area 8 and
  "Living Room" of area 20, and the configuration has no cultural parameters. The check
  then returns four findings: the failed bedroom finding with its suggestion, the passed
  living-room finding, the passed "Building Setbacks" finding, and the passed
  "Doorway Width (ADA)" finding that every evaluation of a plan ends with.
\<close>

theorem C1_bedroom_four_findings:
  assumes sel: "py_index (floorPlans project) (selectedPlanIndex project) = Inr plan"
    and rms: "map (\<lambda>r. (Room.name r, Room.area r)) (rooms plan)
                = [(''Bedroom 1'', Some (PyInt 8)), (''Living Room'', Some (PyInt 20))]"
    and nocult: "culturalParams (config project) = None"
  shows "check_compliance project = Inr
     [\<lparr>category = ''regulatory'', rule = ''Minimum Bedroom Size'', status = ''failed'',
       message = ''Bedroom 1 is 8.0m'' @ [CHR 0xB2] @ '' (minimum 9m'' @ [CHR 0xB2] @ '' required)'',
       suggestion = Some ''Increase bedroom dimensions to meet code requirements''\<rparr>,
      \<lparr>category = ''regulatory'', rule = ''Minimum Room Size'', status = ''passed'',
       message = ''Living Room meets size requirements (20.0m'' @ [CHR 0xB2] @ '')'',
       suggestion = None\<rparr>,
      \<lparr>category = ''regulatory'', rule = ''Building Setbacks'', status = ''passed'',
       message = ''Setbacks comply with '' @ municipal_code_of (config project) @ '' regulations'',
       suggestion = None\<rparr>,
      \<lparr>category = ''accessibility'', rule = ''Doorway Width (ADA)'', status = ''passed'',
       message = ''All doorways are 0.9m wide (minimum 0.85m)'', suggestion = None\<rparr>]"
proof -
  have ne: "floorPlans project \<noteq> []"
    using sel by (rule py_index_nonempty)
  obtain r1 r2 where two: "rooms plan = [r1, r2]"
    and r1: "Room.name r1 = ''Bedroom 1''" "Room.area r1 = Some (PyInt 8)"
    and r2: "Room.name r2 = ''Living Room''" "Room.area r2 = Some (PyInt 20)"
    using rms by (auto simp: map_eq_Cons_conv)
  have c1: "room_size_check r1 = Inr
     \<lparr>category = ''regulatory'', rule = ''Minimum Bedroom Size'', status = ''failed'',
      message = ''Bedroom 1 is 8.0m'' @ [CHR 0xB2] @ '' (minimum 9m'' @ [CHR 0xB2] @ '' required)'',
      suggestion = Some ''Increase bedroom dimensions to meet code requirements''\<rparr>"
    by (simp add: room_size_check_def r1 bedroom_names bedroom_areas and_then_def)
  have c2: "room_size_check r2 = Inr
     \<lparr>category = ''regulatory'', rule = ''Minimum Room Size'', status = ''passed'',
      message = ''Living Room meets size requirements (20.0m'' @ [CHR 0xB2] @ '')'',
      suggestion = None\<rparr>"
    by (simp add: room_size_check_def r2 bedroom_names bedroom_areas and_then_def)
  show ?thesis
    unfolding check_compliance_def selected_plan_def Let_def
    using ne
    by (simp add: sel two c1 c2 setback_check_def no_cultural_params [OF nocult]
        accessibility_passed)
qed

theorem C1_bedroom_four_findings_witness:
  "check_compliance (project_with [bedroom_plan]) = Inr bedroom_findings"
proof -
  have sel: "py_index (floorPlans (project_with [bedroom_plan]))
               (selectedPlanIndex (project_with [bedroom_plan])) = Inr bedroom_plan"
    by (simp add: project_with_def py_index_first)
  have rms: "map (\<lambda>r. (Room.name r, Room.area r)) (rooms bedroom_plan)
               = [(''Bedroom 1'', Some (PyInt 8)), (''Living Room'', Some (PyInt 20))]"
    by (simp add: bedroom_plan_def room_at_def)
  have nocult: "culturalParams (config (project_with [bedroom_plan])) = None"
    by (simp add: project_with_def example_config_def)
  have code: "municipal_code_of (config (project_with [bedroom_plan])) = ''General''"
    by (simp add: municipal_code_of_def project_with_def example_config_def)
  show ?thesis
    using C1_bedroom_four_findings [OF sel rms nocult]
    by (simp add: code bedroom_findings_def)
qed

text \<open>
  C1 as stated asks for three findings in total. On the example project the list has
  four: the accessibility finding follows the setback finding.
\<close>

theorem C1_three_findings_counterexample:
  "check_compliance (project_with [bedroom_plan]) = Inr bedroom_findings
   \<and> length bedroom_findings \<noteq> 3"
proof
  show "check_compliance (project_with [bedroom_plan]) = Inr bedroom_findings"
    by code_simp
  show "length bedroom_findings \<noteq> 3"
    by (simp add: bedroom_findings_def)
qed

subsection \<open>Steps and ranges\<close>

lemma and_then_Inr [simp]: "and_then (Inr v) f = f v"
  by (simp add: and_then_def)

lemma and_then_Inl [simp]: "and_then (Inl e) f = Inl e"
  by (simp add: and_then_def)

lemma and_then_eq_Inr: "(and_then m f = Inr r) = (\<exists>v. m = Inr v \<and> f v = Inr r)"
  by (cases m) simp_all

lemma collect_eq_Inr: "(collect ms = Inr vs) = (ms = map Inr vs)"
proof (induction ms arbitrary: vs)
  case Nil
  show ?case by auto
next
  case (Cons m ms)
  show ?case
    by (cases vs) (auto simp: and_then_eq_Inr Cons.IH)
qed

lemma room_limit_least: "100 \<le> room_limit"
  by (simp add: room_limit_def)

lemma room_limit_float: "of_int (100 * room_limit) < overflow_threshold"
  by (simp add: room_limit_def overflow_threshold_def)

lemma room_limit_str: "100 * room_limit < 10 ^ max_str_digits"
proof -
  have "100 * room_limit = 10 ^ 302"
    by (simp add: room_limit_def)
  moreover have "(10::int) ^ 302 < 10 ^ max_str_digits"
    by (rule power_strict_increasing) (simp_all add: max_str_digits_def)
  ultimately show ?thesis by simp
qed

lemma int_to_float_small:
  assumes "\<bar>i\<bar> \<le> 100 * room_limit"
  shows "int_to_float i = Inr (Finite (fl (of_int i)))"
proof -
  have "of_int \<bar>i\<bar> \<le> (of_int (100 * room_limit) :: rat)"
    using assms by (rule iffD2 [OF of_int_le_iff])
  then have "\<bar>of_int i :: rat\<bar> < overflow_threshold"
    using room_limit_float by simp
  then show ?thesis
    by (simp add: int_to_float_def)
qed

lemma py_less_trans: "py_less a b \<Longrightarrow> py_less b c \<Longrightarrow> py_less a c"
  by (auto simp: py_less_def)

lemma py_less_cotrans: "\<not> is_nan m \<Longrightarrow> py_less a b \<Longrightarrow> py_less a m \<or> py_less m b"
  by (auto simp: py_less_def)

lemma max_from_mem: "max_from m vs \<in> set (m # vs)"
  by (induction vs arbitrary: m) auto

lemma max_from_greatest:
  "\<forall>v\<in>set (m # vs). \<not> is_nan v \<Longrightarrow> \<forall>u\<in>set (m # vs). \<not> py_less (max_from m vs) u"
proof (induction vs arbitrary: m)
  case Nil
  then show ?case by (auto simp: py_less_def)
next
  case (Cons v vs)
  let ?m = "if py_less m v then v else m"
  have nn: "\<forall>w\<in>set (?m # vs). \<not> is_nan w"
    using Cons.prems by auto
  have all: "\<forall>u\<in>set (?m # vs). \<not> py_less (max_from ?m vs) u"
    by (rule Cons.IH [OF nn])
  then have top: "\<not> py_less (max_from ?m vs) ?m"
    by simp
  have m_nn: "\<not> is_nan m" using Cons.prems by simp
  have "\<not> py_less (max_from ?m vs) m"
    using top py_less_trans [of "max_from ?m vs" m v] by (auto split: if_splits)
  moreover have "\<not> py_less (max_from ?m vs) v"
    using top py_less_cotrans [OF m_nn, of "max_from ?m vs" v] by (auto split: if_splits)
  ultimately show ?case
    using all by auto
qed

lemma length_digits: "n < 10 ^ k \<Longrightarrow> 0 < k \<Longrightarrow> length (digits n) \<le> k"
proof (induction n arbitrary: k rule: digits.induct)
  case (1 n)
  show ?case
  proof (cases "n < 10")
    case True
    then show ?thesis using "1.prems" by (subst digits.simps) simp
  next
    case False
    then obtain j where k: "k = Suc j" and j: "0 < j"
      using "1.prems" by (cases k; cases "k - 1") auto
    have "n div 10 < 10 ^ j"
      using "1.prems"(1) k by (simp add: less_mult_imp_div_less mult.commute)
    then have "length (digits (n div 10)) \<le> j"
      using "1.IH" [OF False _ j] by simp
    then show ?thesis
      using False k by (subst digits.simps) simp
  qed
qed

lemma str_int_ok:
  assumes "\<bar>i\<bar> < 10 ^ max_str_digits"
  shows "\<exists>s. str_int i = Inr s"
proof -
  have "nat \<bar>i\<bar> < 10 ^ max_str_digits"
    using assms by (simp add: nat_less_iff)
  then have "length (digits (nat \<bar>i\<bar>)) \<le> max_str_digits"
    by (rule length_digits) (simp add: max_str_digits_def)
  then show ?thesis
    by (simp add: str_int_def)
qed

lemma str_num_ok:
  assumes "in_range b v" "b \<le> 100 * room_limit"
  shows "\<exists>s. str_num float_repr v = Inr s"
proof (cases v)
  case (PyInt i)
  then have "\<bar>i\<bar> \<le> b" using assms(1) by (simp add: in_range_def)
  then have "\<bar>i\<bar> < 10 ^ max_str_digits"
    using assms(2) room_limit_str by linarith
  then show ?thesis
    using PyInt str_int_ok by simp
next
  case (PyFloat f)
  then show ?thesis by simp
qed

lemma as_float_ok:
  assumes "in_range b v" "b \<le> 100 * room_limit"
  shows "\<exists>f. as_float v = Inr f"
proof (cases v)
  case (PyInt i)
  then have "\<bar>i\<bar> \<le> 100 * room_limit"
    using assms by (simp add: in_range_def)
  then show ?thesis
    using PyInt by (simp add: int_to_float_small)
next
  case (PyFloat f)
  then show ?thesis by simp
qed

lemma format_1f_ok: "in_range b v \<Longrightarrow> b \<le> 100 * room_limit \<Longrightarrow> \<exists>s. format_1f v = Inr s"
  using as_float_ok [of b v] by (auto simp: format_1f_def)

lemma py_add_ok:
  assumes "in_range a u" "in_range b v" "a \<le> 100 * room_limit" "b \<le> 100 * room_limit"
  shows "\<exists>s. py_add u v = Inr s \<and> in_range (a + b) s"
proof -
  obtain fu fv where "as_float u = Inr fu" "as_float v = Inr fv"
    using as_float_ok assms by blast
  then show ?thesis
    using assms(1,2) by (cases u; cases v) (auto simp: in_range_def)
qed

lemma py_mul_ok:
  assumes "in_range a u" "in_range b v" "a \<le> 100 * room_limit" "b \<le> 100 * room_limit"
  shows "\<exists>s. py_mul u v = Inr s \<and> in_range (a * b) s"
proof -
  obtain fu fv where "as_float u = Inr fu" "as_float v = Inr fv"
    using as_float_ok assms by blast
  then show ?thesis
    using assms(1,2) by (cases u; cases v) (auto simp: in_range_def abs_mult intro: mult_mono)
qed

lemma in_range_mono: "in_range a v \<Longrightarrow> a \<le> b \<Longrightarrow> in_range b v"
  by (cases v) (auto simp: in_range_def)

lemma in_range_int: "\<bar>c\<bar> \<le> b \<Longrightarrow> in_range b (PyInt c)"
  by (simp add: in_range_def)

text \<open>A room's number times the scale, with 50 or 100 added or not, stays in this range.\<close>

lemma scaled_ok:
  assumes "in_range b v" "b \<le> 2 * room_limit"
  shows "\<exists>s. py_mul v scale = Inr s \<and> in_range (81 * room_limit) s"
proof -
  have "in_range 40 scale"
    by (simp add: scale_def in_range_def)
  then obtain s where s: "py_mul v scale = Inr s" "in_range (b * 40) s"
    using py_mul_ok [OF assms(1), of 40 scale] assms(2) room_limit_least by auto
  have "in_range (81 * room_limit) s"
    using s(2) by (rule in_range_mono) (use assms(2) room_limit_least in linarith)
  then show ?thesis using s by simp
qed

lemma shifted_ok:
  assumes "in_range b v" "b \<le> 2 * room_limit" "0 \<le> c" "c \<le> 100"
  shows "\<exists>s. and_then (py_mul v scale) (\<lambda>scaled. py_add scaled (PyInt c)) = Inr s
             \<and> in_range (100 * room_limit) s"
proof -
  have "in_range 40 scale"
    by (simp add: scale_def in_range_def)
  then obtain a where a: "py_mul v scale = Inr a" "in_range (b * 40) a"
    using py_mul_ok [OF assms(1), of 40 scale] assms(2) room_limit_least by auto
  have c: "in_range c (PyInt c)"
    using assms(3) by (simp add: in_range_def)
  obtain s where s: "py_add a (PyInt c) = Inr s" "in_range (b * 40 + c) s"
    using py_add_ok [OF a(2) c] assms room_limit_least by auto
  have "in_range (100 * room_limit) s"
    using s(2) by (rule in_range_mono) (use assms room_limit_least in linarith)
  then show ?thesis
    using a s by simp
qed

lemma offset_ok:
  assumes "in_range room_limit v"
  shows "\<exists>s. offset v = Inr s \<and> in_range (100 * room_limit) s"
  unfolding offset_def
  using shifted_ok [OF assms, of 50] room_limit_least by simp

lemma canvas_side_ok:
  assumes "in_range (2 * room_limit) v"
  shows "\<exists>s. canvas_side v = Inr s \<and> in_range (100 * room_limit) s"
  unfolding canvas_side_def
  using shifted_ok [OF assms, of 100] by simp

lemma size_ok:
  assumes "in_range room_limit v"
  shows "\<exists>s. py_mul v scale = Inr s \<and> in_range (100 * room_limit) s"
proof -
  obtain s where s: "py_mul v scale = Inr s" "in_range (81 * room_limit) s"
    using scaled_ok [OF assms] room_limit_least by auto
  have "in_range (100 * room_limit) s"
    using s(2) by (rule in_range_mono) (use room_limit_least in linarith)
  then show ?thesis using s by simp
qed

lemma fl_two: "fl 2 = 2"
  using fl_numeral [of "Num.Bit0 Num.One"] by simp

lemma halve_ok:
  assumes "in_range (100 * room_limit) v"
  shows "\<exists>f. py_truediv v (PyInt 2) = Inr (PyFloat f)"
proof (cases v)
  case (PyInt i)
  then have "\<bar>i\<bar> \<le> 100 * room_limit" using assms by (simp add: in_range_def)
  then have "of_int \<bar>i\<bar> \<le> (of_int (100 * room_limit) :: rat)"
    by (rule iffD2 [OF of_int_le_iff])
  then have "\<bar>of_int i / 2 :: rat\<bar> < overflow_threshold"
    using room_limit_float by simp
  then show ?thesis
    using PyInt by simp
next
  case (PyFloat f)
  have "int_to_float 2 = Inr (Finite 2)"
    using int_to_float_small [of 2] room_limit_least by (simp add: fl_two)
  then show ?thesis
    using PyFloat by simp
qed

lemma float_add_int: "\<bar>c\<bar> \<le> 100 \<Longrightarrow> \<exists>g. py_add (PyFloat f) (PyInt c) = Inr (PyFloat g)"
  using int_to_float_small [of c] room_limit_least by simp

lemma middle_ok:
  assumes "in_range (100 * room_limit) a" "in_range (100 * room_limit) b"
  shows "\<exists>f. middle a b = Inr (PyFloat f)"
proof -
  obtain h where h: "py_truediv b (PyInt 2) = Inr (PyFloat h)"
    using halve_ok [OF assms(2)] by auto
  obtain fa where "as_float a = Inr fa"
    using as_float_ok [OF assms(1)] by auto
  then have "\<exists>f. py_add a (PyFloat h) = Inr (PyFloat f)"
    by (cases a) simp_all
  then show ?thesis
    using h by (simp add: middle_def)
qed

lemma str_num_drawn: "in_range (100 * room_limit) v \<Longrightarrow> \<exists>s. str_num float_repr v = Inr s"
  by (rule str_num_ok [of "100 * room_limit"]) simp_all

lemma room_rect_ok:
  assumes "in_range (100 * room_limit) sx" "in_range (100 * room_limit) sy"
    "in_range (100 * room_limit) sw" "in_range (100 * room_limit) sh"
  shows "\<exists>s. room_rect float_repr sx sy sw sh c = Inr s"
proof -
  obtain tx where tx: "str_num float_repr sx = Inr tx"
    using str_num_drawn [OF assms(1)] by auto
  obtain ty where ty: "str_num float_repr sy = Inr ty"
    using str_num_drawn [OF assms(2)] by auto
  obtain tw where tw: "str_num float_repr sw = Inr tw"
    using str_num_drawn [OF assms(3)] by auto
  obtain th where th: "str_num float_repr sh = Inr th"
    using str_num_drawn [OF assms(4)] by auto
  show ?thesis
    by (simp add: room_rect_def tx ty tw th)
qed

lemma name_label_ok: "\<exists>s. name_label float_repr (PyFloat f) (PyFloat g) n = Inr s"
  by (simp add: name_label_def)

lemma area_label_ok:
  assumes "in_range room_limit a"
  shows "\<exists>s. area_label float_repr (PyFloat f) (PyFloat g) a = Inr s"
proof -
  obtain below where below: "py_add (PyFloat g) (PyInt 15) = Inr (PyFloat below)"
    using float_add_int [of 15 g] by auto
  obtain shown where shown: "format_1f a = Inr shown"
    using format_1f_ok [OF assms] room_limit_least by auto
  show ?thesis
    by (simp add: area_label_def below shown del: py_add.simps)
qed

lemma room_parts_ok:
  assumes "drawable room"
  shows "\<exists>rect label area_text. room_parts float_repr idx room = Inr [rect, label, area_text]"
proof -
  have rx: "in_range room_limit (x room)" and ry: "in_range room_limit (y room)"
    and rw: "in_range room_limit (width room)" and rh: "in_range room_limit (height room)"
    using assms by (simp_all add: drawable_def)
  have "in_range room_limit (PyInt 0)"
    using room_limit_least by (simp add: in_range_def)
  then have ra: "in_range room_limit (case Room.area room of None \<Rightarrow> PyInt 0 | Some a \<Rightarrow> a)"
    using assms by (cases "Room.area room") (simp_all add: drawable_def)
  obtain sx where sx: "offset (x room) = Inr sx" "in_range (100 * room_limit) sx"
    using offset_ok [OF rx] by auto
  obtain sy where sy: "offset (y room) = Inr sy" "in_range (100 * room_limit) sy"
    using offset_ok [OF ry] by auto
  obtain sw where sw: "py_mul (width room) scale = Inr sw" "in_range (100 * room_limit) sw"
    using size_ok [OF rw] by auto
  obtain sh where sh: "py_mul (height room) scale = Inr sh" "in_range (100 * room_limit) sh"
    using size_ok [OF rh] by auto
  obtain rect where rect:
    "room_rect float_repr sx sy sw sh (colors ! (idx mod length colors)) = Inr rect"
    using room_rect_ok [OF sx(2) sy(2) sw(2) sh(2)] by blast
  obtain f where f: "middle sx sw = Inr (PyFloat f)"
    using middle_ok [OF sx(2) sw(2)] by auto
  obtain g where g: "middle sy sh = Inr (PyFloat g)"
    using middle_ok [OF sy(2) sh(2)] by auto
  obtain label where label: "name_label float_repr (PyFloat f) (PyFloat g) (Room.name room) = Inr label"
    using name_label_ok by blast
  obtain area_text where area_text:
    "area_label float_repr (PyFloat f) (PyFloat g)
       (case Room.area room of None \<Rightarrow> PyInt 0 | Some a \<Rightarrow> a) = Inr area_text"
    using area_label_ok [OF ra] by blast
  show ?thesis
    unfolding room_parts_def
    by (simp only: sx sy sw sh rect f g label area_text and_then_Inr) blast
qed

end
